theory Spec2Isabelle
  imports Complex_Main "HOL-Library.Char_ord" "HOL-Library.List_Lexorder" "HOL-Library.Sublist"
begin

section \<open>StackClub tutorial notebooks\<close>

text \<open>
  The repository is a set of Jupyter notebooks that sequence calls into the LSST Science
  Pipelines, scarlet, numpy and matplotlib. The code original to the repository is the
  text of the notebook cells and the helper functions they define (\<open>showRGB\<close>,
  \<open>imshow_rgb\<close>, \<open>makeCatalog\<close>). The third-party routines are not part of the
  repository: wherever a cell calls one, the model takes it as a parameter.
\<close>

subsection \<open>Python exceptions\<close>

text \<open>
  A call either returns a value (\<open>Inr\<close>) or raises (\<open>Inl\<close>). \<open>ExternalError\<close>
  stands for whatever a third-party routine raises.
\<close>

datatype py_exn =
    NameError string
  | IndexError
  | KeyError string
  | TypeError
  | ValueError
  | ExternalError string

text \<open>\<open>xs[k]\<close> for a literal index \<open>k \<ge> 0\<close>: IndexError past the end.\<close>

definition getitem :: "'x list \<Rightarrow> nat \<Rightarrow> py_exn + 'x" where
  "getitem xs k = (if k < length xs then Inr (xs ! k) else Inl IndexError)"

subsection \<open>numpy arrays and the inverse-variance weights\<close>

text \<open>
  A numpy array is its shape and its elements in row-major order. The element type is
  left open: the only operations the cells use on elements are the power and the
  division of the element type (\<open>float32\<close> in the notebook).
\<close>

record 'a ndarray =
  shape :: "nat list"
  data :: "'a list"

text \<open>\<open>arr ** n\<close>: the power, element by element.\<close>

definition np_power :: "('a::power) ndarray \<Rightarrow> nat \<Rightarrow> 'a ndarray" where
  "np_power arr n = \<lparr>shape = shape arr, data = map (\<lambda>x. x ^ n) (data arr)\<rparr>"

text \<open>\<open>c / arr\<close>: the scalar is broadcast over the array.\<close>

definition np_rtruediv :: "('a::inverse) \<Rightarrow> 'a ndarray \<Rightarrow> 'a ndarray" where
  "np_rtruediv c arr = \<lparr>shape = shape arr, data = map (\<lambda>x. c / x) (data arr)\<rparr>"

text \<open>
  The cell
  \<^verbatim>\<open>
  var = subset.variance.array
  weights = 1 / (var ** 2)
  \<close>
  as a function of the variance plane.
\<close>

definition weights_cell :: "('a::{inverse,power}) ndarray \<Rightarrow> 'a ndarray" where
  "weights_cell var = np_rtruediv 1 (np_power var 2)"

text \<open>
  The keyword arguments of
  \<^verbatim>\<open>
  observation = scarlet.Observation(images, psfs=scarlet.ImagePSF(psfs),
                                    channels=filters, weights=weights)
  \<close>
\<close>

record ('a, 'p) observation_call =
  obs_images :: "'a ndarray"
  obs_psfs :: 'p
  obs_channels :: string
  obs_weights :: "'a ndarray"

definition observation_cell ::
  "('a::{inverse,power}) ndarray \<Rightarrow> 'p \<Rightarrow> string \<Rightarrow> 'a ndarray \<Rightarrow> ('a, 'p) observation_call" where
  "observation_cell images psfs filters var =
     \<lparr>obs_images = images, obs_psfs = psfs, obs_channels = filters,
      obs_weights = weights_cell var\<rparr>"

subsection \<open>showRGB\<close>

text \<open>
  A \<open>MultibandImage\<close> is the sequence of its filter names, each with its single-band
  image; a single-band image has its pixel array (\<open>.array\<close>) and its bounding box
  (\<open>.getBBox()\<close>). \<open>len(image)\<close> is the number of filters, \<open>image.filters\<close> their
  names in order, and \<open>image[f]\<close> the band named \<open>f\<close>, an error when there is none.
\<close>

record ('a, 'b) band_image =
  array :: "'a ndarray"
  getBBox :: 'b






















subsection \<open>makeCatalog\<close>

text \<open>
  Sequencing of calls that may raise: the first exception ends the evaluation.
\<close>

definition bind_exn :: "py_exn + 'x \<Rightarrow> ('x \<Rightarrow> py_exn + 'y) \<Rightarrow> py_exn + 'y" where
  "bind_exn m f = (case m of Inl e \<Rightarrow> Inl e | Inr x \<Rightarrow> f x)"

text \<open>
  A global name is looked up when the statement that mentions it runs: a name that is
  not bound raises NameError.
\<close>

definition lookup :: "string \<Rightarrow> 'x option \<Rightarrow> py_exn + 'x" where
  "lookup name binding = (case binding of None \<Rightarrow> Inl (NameError name) | Some x \<Rightarrow> Inr x)"

text \<open>
  The third-party modules the body names. \<open>np\<close>: \<open>np.sum(cube, axis=0)\<close>.
  \<open>Starlet\<close>: \<open>Starlet(image, lvl=l).coefficients\<close> (\<open>None\<close> when \<open>lvl\<close> is not
  given) and \<open>Starlet(coefficients=c).image\<close>. \<open>sep\<close>: \<open>sep.Background(detect)\<close>,
  the \<open>globalrms\<close> of a background, and \<open>sep.extract(detect, lvl, err=e)\<close>.
\<close>

record 'a numpy_module =
  np_sum_axis0 :: "'a ndarray \<Rightarrow> py_exn + 'a ndarray"

record 'a starlet_class =
  Starlet_coefficients :: "'a ndarray \<Rightarrow> nat option \<Rightarrow> py_exn + 'a ndarray"
  Starlet_image :: "'a ndarray \<Rightarrow> py_exn + 'a ndarray"

record ('a, 'bk, 'g, 'c) sep_module =
  sep_Background :: "'a ndarray \<Rightarrow> py_exn + 'bk"
  sep_globalrms :: "'bk \<Rightarrow> 'g"
  sep_extract :: "'a ndarray \<Rightarrow> int \<Rightarrow> 'g \<Rightarrow> py_exn + 'c"

text \<open>An element of \<open>datas\<close>: an object with an attribute \<open>images\<close>.\<close>

record 'a data_object =
  data_images :: "'a ndarray"

text \<open>
  The global names the body of \<open>makeCatalog\<close> refers to, each with its binding in the
  namespace the function is called in, if it has one.
\<close>

record ('a, 'bk, 'g, 'c, 'm) namespace =
  ns_np :: "'a numpy_module option"
  ns_Starlet :: "'a starlet_class option"
  ns_sep :: "('a, 'bk, 'g, 'c) sep_module option"
  ns_datas :: "'a data_object list option"
  ns_mad_wavelet :: "('a ndarray \<Rightarrow> py_exn + 'm) option"

text \<open>
  The namespace of the notebook: its cells import \<open>numpy as np\<close> and
  \<open>from scarlet import Starlet\<close>; no cell imports \<open>sep\<close> or binds \<open>datas\<close> or
  \<open>mad_wavelet\<close>.
\<close>

definition notebook_namespace ::
  "'a numpy_module \<Rightarrow> 'a starlet_class \<Rightarrow> ('a, 'bk, 'g, 'c, 'm) namespace" where
  "notebook_namespace np st =
     \<lparr>ns_np = Some np, ns_Starlet = Some st, ns_sep = None, ns_datas = None, ns_mad_wavelet = None\<rparr>"

text \<open>\<open>arr.mean(axis=0)\<close>, a method of numpy's array, is third-party as well.\<close>

record 'a ndarray_methods =
  mean_axis0 :: "'a ndarray \<Rightarrow> py_exn + 'a ndarray"

text \<open>
  \<open>arr[0]\<close>: the first sub-array along the first axis; IndexError for a scalar or an
  empty first axis.
\<close>

definition getitem0 :: "'a ndarray \<Rightarrow> py_exn + 'a ndarray" where
  "getitem0 arr =
     (case shape arr of
        [] \<Rightarrow> Inl IndexError
      | n # rest \<Rightarrow>
          if n = 0 then Inl IndexError
          else Inr \<lparr>shape = rest, data = take (prod_list rest) (data arr)\<rparr>)"

text \<open>
  \<open>arr[:, -1, :, :] = 0\<close>: every element whose index along the second axis is the
  last one becomes 0. IndexError with fewer than four axes or an empty second axis.
\<close>

definition setitem_last_scale_zero :: "('a::zero) ndarray \<Rightarrow> py_exn + 'a ndarray" where
  "setitem_last_scale_zero arr =
     (case shape arr of
        n0 # n1 # n2 # n3 # rest \<Rightarrow>
          if n1 = 0 then Inl IndexError
          else Inr \<lparr>shape = shape arr,
                    data = map (\<lambda>(i, x). if (i div prod_list (n2 # n3 # rest)) mod n1 = n1 - 1 then 0 else x)
                             (zip [0..<length (data arr)] (data arr))\<rparr>
      | _ \<Rightarrow> Inl IndexError)"

text \<open>
  The detection image, lines
  \<^verbatim>\<open>
  detect_image = np.sum(cube, axis=0)
  if np.size(detect_image.shape) == 3:
      if wave:
          wave_detect = Starlet(detect_image.mean(axis=0), lvl=4).coefficients
          wave_detect[:, -1, :, :] = 0
          detect = Starlet(coefficients=wave_detect).image
      else:
          detect = detect_image.mean(axis=0)
  else:
      if wave:
          wave_detect = Starlet(detect_image).coefficients
          detect = wave_detect[0][0]
      else:
          detect = detect_image
  \<close>
\<close>

definition detection_image ::
  "('a::zero, 'bk, 'g, 'c, 'm) namespace \<Rightarrow> 'a ndarray_methods \<Rightarrow> 'a ndarray \<Rightarrow> bool \<Rightarrow> py_exn + 'a ndarray" where
  "detection_image ns meth cube wave =
     bind_exn (lookup ''np'' (ns_np ns)) (\<lambda>np.
     bind_exn (np_sum_axis0 np cube) (\<lambda>detect_image.
       if length (shape detect_image) = 3 then
         (if wave then
            bind_exn (lookup ''Starlet'' (ns_Starlet ns)) (\<lambda>Starlet.
            bind_exn (mean_axis0 meth detect_image) (\<lambda>band_mean.
            bind_exn (Starlet_coefficients Starlet band_mean (Some 4)) (\<lambda>wave_detect.
            bind_exn (setitem_last_scale_zero wave_detect) (\<lambda>wave_detect.
            bind_exn (lookup ''Starlet'' (ns_Starlet ns)) (\<lambda>Starlet.
              Starlet_image Starlet wave_detect)))))
          else mean_axis0 meth detect_image)
       else
         (if wave then
            bind_exn (lookup ''Starlet'' (ns_Starlet ns)) (\<lambda>Starlet.
            bind_exn (Starlet_coefficients Starlet detect_image None) (\<lambda>wave_detect.
            bind_exn (getitem0 wave_detect) (\<lambda>first_band.
              getitem0 first_band)))
          else Inr detect_image)))"

text \<open>
  \<^verbatim>\<open>
  bg_rms = []
  for data in datas:
      bg_rms.append(mad_wavelet(data.images))
  \<close>
  The name \<open>mad_wavelet\<close> is looked up in each iteration, so not at all for an empty
  \<open>datas\<close>.
\<close>

fun bg_rms_loop ::
  "('a ndarray \<Rightarrow> py_exn + 'm) option \<Rightarrow> 'a data_object list \<Rightarrow> 'm list \<Rightarrow> py_exn + 'm list" where
  "bg_rms_loop mw [] bg_rms = Inr bg_rms"
| "bg_rms_loop mw (d # ds) bg_rms =
     bind_exn (lookup ''mad_wavelet'' mw) (\<lambda>mad_wavelet.
     bind_exn (mad_wavelet (data_images d)) (\<lambda>r.
       bg_rms_loop mw ds (bg_rms @ [r])))"

text \<open>\<open>bg_rms\<close> is one value when \<open>datas\<close> has one element, a list otherwise.\<close>

datatype 'm bg_rms = Single 'm | Several "'m list"

text \<open>
  The local variables \<open>catalog\<close> and \<open>bg_rms\<close> when the body reaches its return
  statement:
  \<^verbatim>\<open>
  bkg = sep.Background(detect)
  catalog = sep.extract(detect, lvl, err=bkg.globalrms)

  if len(datas) ==1:
      bg_rms = mad_wavelet(datas[0].images)
  else:
      bg_rms = []
      for data in datas:
          bg_rms.append(mad_wavelet(data.images))
  \<close>
\<close>

definition makeCatalog_body ::
  "('a::zero, 'bk, 'g, 'c, 'm) namespace \<Rightarrow> 'a ndarray_methods \<Rightarrow> 'a ndarray \<Rightarrow> int \<Rightarrow> bool \<Rightarrow>
   py_exn + ('c \<times> 'm bg_rms)" where
  "makeCatalog_body ns meth cube lvl wave =
     bind_exn (detection_image ns meth cube wave) (\<lambda>detect.
     bind_exn (lookup ''sep'' (ns_sep ns)) (\<lambda>sep.
     bind_exn (sep_Background sep detect) (\<lambda>bkg.
     bind_exn (lookup ''sep'' (ns_sep ns)) (\<lambda>sep.
     bind_exn (sep_extract sep detect lvl (sep_globalrms sep bkg)) (\<lambda>catalog.
     bind_exn (lookup ''datas'' (ns_datas ns)) (\<lambda>datas.
       if length datas = 1 then
         bind_exn (lookup ''mad_wavelet'' (ns_mad_wavelet ns)) (\<lambda>mad_wavelet.
         bind_exn (lookup ''datas'' (ns_datas ns)) (\<lambda>datas.
         bind_exn (getitem datas 0) (\<lambda>data0.
         bind_exn (mad_wavelet (data_images data0)) (\<lambda>r.
           Inr (catalog, Single r)))))
       else
         bind_exn (lookup ''datas'' (ns_datas ns)) (\<lambda>datas.
         bind_exn (bg_rms_loop (ns_mad_wavelet ns) datas []) (\<lambda>rs.
           Inr (catalog, Several rs)))))))))"

text \<open>
  \<open>makeCatalog(cube, lvl=3, wave=True)\<close>: the body, then \<open>return catalog\<close>.
\<close>

definition makeCatalog ::
  "('a::zero, 'bk, 'g, 'c, 'm) namespace \<Rightarrow> 'a ndarray_methods \<Rightarrow> 'a ndarray \<Rightarrow> int \<Rightarrow> bool \<Rightarrow> py_exn + 'c" where
  "makeCatalog ns meth cube lvl wave =
     bind_exn (makeCatalog_body ns meth cube lvl wave) (\<lambda>(catalog, bg_rms). Inr catalog)"

text \<open>
  Stand-ins for the third-party routines, to run the function on: a sum over the first
  axis, a mean that is the identity on a single band, a transform with one band and two
  scales, and a \<open>sep\<close> whose catalog records what \<open>extract\<close> was given.
\<close>

definition ex_np :: "int numpy_module" where
  "ex_np = \<lparr>np_sum_axis0 = (\<lambda>arr.
      case shape arr of
        [] \<Rightarrow> Inl (ExternalError ''AxisError'')
      | n # rest \<Rightarrow>
          Inr \<lparr>shape = rest,
               data = map (\<lambda>j. sum_list (map (\<lambda>k. data arr ! (k * prod_list rest + j)) [0..<n]))
                        [0..<prod_list rest]\<rparr>)\<rparr>"

definition ex_meth :: "int ndarray_methods" where
  "ex_meth = \<lparr>mean_axis0 = getitem0\<rparr>"

definition ex_starlet :: "int starlet_class" where
  "ex_starlet =
     \<lparr>Starlet_coefficients = (\<lambda>img lvl. Inr \<lparr>shape = 1 # 2 # shape img, data = data img @ data img\<rparr>),
      Starlet_image = (\<lambda>c. Inr \<lparr>shape = drop 2 (shape c), data = take (prod_list (drop 2 (shape c))) (data c)\<rparr>)\<rparr>"

definition ex_sep :: "(int, int, int, int list \<times> int \<times> int) sep_module" where
  "ex_sep = \<lparr>sep_Background = (\<lambda>detect. Inr (sum_list (data detect))),
             sep_globalrms = (\<lambda>bkg. bkg),
             sep_extract = (\<lambda>detect lvl err. Inr (data detect, lvl, err))\<rparr>"

definition ex_cube :: "int ndarray" where
  "ex_cube = \<lparr>shape = [2, 2, 2], data = [1, 2, 3, 4, 5, 6, 7, 8]\<rparr>"

definition ex_notebook :: "(int, int, int, int list \<times> int \<times> int, int) namespace" where
  "ex_notebook = notebook_namespace ex_np ex_starlet"

subsection \<open>Repository discovery (DataInventory)\<close>

text \<open>
  The two discovery cells run shell pipelines (IPython's \<open>!\<close>) and keep the lines they
  print. The file system is the list of the paths that exist; a path is a line (no
  newline in a file name).

  \<open>*\<close> in \<open>ls -d pre*suf\<close> stands for one directory entry: a name that is not empty,
  has no \<open>/\<close> and does not start with a dot.
\<close>

definition plain_name :: "string \<Rightarrow> bool" where
  "plain_name X \<longleftrightarrow> X \<noteq> [] \<and> CHR ''/'' \<notin> set X \<and> hd X \<noteq> CHR ''.''"

definition glob_match :: "string \<Rightarrow> string \<Rightarrow> string \<Rightarrow> bool" where
  "glob_match pre suf p \<longleftrightarrow>
     length pre + length suf \<le> length p \<and>
     take (length pre) p = pre \<and>
     drop (length p - length suf) p = suf \<and>
     plain_name (take (length p - length pre - length suf) (drop (length pre) p))"

text \<open>The shell expands the pattern to the matching paths, sorted.\<close>

definition glob :: "string \<Rightarrow> string \<Rightarrow> string list \<Rightarrow> string list" where
  "glob pre suf fs = sort (remdups (filter (glob_match pre suf) fs))"

text \<open>
  \<open>ls -d pattern\<close>: the lines on standard output and on standard error. With no match
  the shell passes the pattern itself, and \<open>ls\<close> prints nothing but an error.
\<close>

definition ls_d :: "string \<Rightarrow> string \<Rightarrow> string list \<Rightarrow> string list \<times> string list" where
  "ls_d pre suf fs =
     (if glob pre suf fs = []
      then ([], [''ls: cannot access '' @ pre @ ''*'' @ suf @ '': No such file or directory''])
      else (glob pre suf fs, []))"

text \<open>\<open>grep -v pat\<close> keeps the lines that do not contain \<open>pat\<close>.\<close>

definition grep_v :: "string \<Rightarrow> string list \<Rightarrow> string list" where
  "grep_v pat ls = filter (\<lambda>l. \<not> sublist pat l) ls"

text \<open>\<open>cut -d'/' -f1-n\<close>: the first \<open>n\<close> fields of the line, with their delimiters.\<close>

fun split_on :: "char \<Rightarrow> string \<Rightarrow> string list" where
  "split_on d [] = [[]]"
| "split_on d (c # cs) =
     (if c = d then [] # split_on d cs
      else (case split_on d cs of [] \<Rightarrow> [[c]] | f # fs \<Rightarrow> (c # f) # fs))"

fun join :: "char \<Rightarrow> string list \<Rightarrow> string" where
  "join d [] = []"
| "join d [f] = f"
| "join d (f # g # fs) = f @ d # join d (g # fs)"

definition cut_fields :: "nat \<Rightarrow> string list \<Rightarrow> string list" where
  "cut_fields n ls = map (\<lambda>l. join CHR ''/'' (take n (split_on CHR ''/'' l))) ls"

text \<open>\<open>sort | uniq\<close>.\<close>

definition sort_uniq :: "string list \<Rightarrow> string list" where
  "sort_uniq ls = remdups_adj (sort ls)"

text \<open>
  \<open>np.unique\<close> of a list of strings: its distinct elements, sorted.
\<close>

definition np_unique :: "string list \<Rightarrow> string list" where
  "np_unique xs = sort (remdups xs)"

text \<open>
  \<open>var = ! ls -d P | grep -v PAT | cut -d'/' -f1-n | sort | uniq\<close>: only the standard
  output of \<open>ls\<close> goes through the pipe; its error output is printed as it is, and
  IPython keeps those lines as well.
\<close>

definition captured_pipe :: "string list \<times> string list \<Rightarrow> string \<Rightarrow> nat \<Rightarrow> string list" where
  "captured_pipe out pat n = snd out @ sort_uniq (cut_fields n (grep_v pat (fst out)))"

text \<open>
  \<open>var = ! ls -d P |& grep -v PAT | cut -d'/' -f1-n | sort | uniq\<close>: with \<open>|&\<close> the
  error output goes through the pipe too.
\<close>

definition captured_pipe_both :: "string list \<times> string list \<Rightarrow> string \<Rightarrow> nat \<Rightarrow> string list" where
  "captured_pipe_both out pat n = sort_uniq (cut_fields n (grep_v pat (fst out @ snd out)))"

text \<open>
  \<^verbatim>\<open>
  shared_repos_with_mappers = ! ls -d /project/shared/data/*/_mapper | grep -v README | cut -d'/' -f1-5 | sort | uniq
  shared_repos_with_yaml_files = ! ls -d /project/shared/data/*/repositoryCfg.yaml | grep -v README | cut -d'/' -f1-5 | sort | uniq
  shared_repos = np.unique(shared_repos_with_mappers + shared_repos_with_yaml_files)
  \<close>
\<close>

definition shared_repos_with_mappers :: "string list \<Rightarrow> string list" where
  "shared_repos_with_mappers fs =
     captured_pipe (ls_d ''/project/shared/data/'' ''/_mapper'' fs) ''README'' 5"

definition shared_repos_with_yaml_files :: "string list \<Rightarrow> string list" where
  "shared_repos_with_yaml_files fs =
     captured_pipe (ls_d ''/project/shared/data/'' ''/repositoryCfg.yaml'' fs) ''README'' 5"

definition shared_repos :: "string list \<Rightarrow> string list" where
  "shared_repos fs = np_unique (shared_repos_with_mappers fs @ shared_repos_with_yaml_files fs)"

text \<open>
  \<^verbatim>\<open>
  repos_with_mappers = ! ls -d /datasets/*/repo/_mapper  |& grep -v "No such" | cut -d'/' -f1-4 | sort | uniq
  repos_with_yaml_files = ! ls -d /datasets/*/repo/repositoryCfg.yaml |& grep -v "No such" | cut -d'/' -f1-4 | sort | uniq
  repos = np.unique(repos_with_mappers + repos_with_yaml_files)
  \<close>
\<close>

definition repos_with_mappers :: "string list \<Rightarrow> string list" where
  "repos_with_mappers fs =
     captured_pipe_both (ls_d ''/datasets/'' ''/repo/_mapper'' fs) ''No such'' 4"

definition repos_with_yaml_files :: "string list \<Rightarrow> string list" where
  "repos_with_yaml_files fs =
     captured_pipe_both (ls_d ''/datasets/'' ''/repo/repositoryCfg.yaml'' fs) ''No such'' 4"

definition repos :: "string list \<Rightarrow> string list" where
  "repos fs = np_unique (repos_with_mappers fs @ repos_with_yaml_files fs)"

subsection \<open>Notebook cells\<close>

text \<open>
  The values a cell handles: Python's own literals and containers, and references to
  the objects third-party code returns (\<open>Ext\<close>), whose state the notebook does not see.
\<close>

datatype 'x val =
    StrV string
  | IntV int
  | NoneV
  | SliceV "'x val" "'x val"
  | ListV "'x val list"
  | DictV "('x val \<times> 'x val) list"
  | KwV string "'x val"
  | ExtV 'x

text \<open>
  A call into third-party code is identified by the source text of what is called
  (\<open>butler.get\<close>, \<open>detectionTask.run\<close>, \<open>coadds[]\<close> for a subscript, \<open>.image\<close> for an
  attribute of an intermediate value), with the receiver as the first argument. It acts
  on a world the notebook does not see (third-party objects, the file system, the
  screen) and returns a value or raises. The kernel records every such call with its
  arguments and outcome.
\<close>

type_synonym 'x event = "string \<times> 'x val list \<times> (py_exn + 'x val)"

type_synonym ('x, 'w) ext = "string \<Rightarrow> 'x val list \<Rightarrow> 'w \<Rightarrow> (py_exn + 'x val) \<times> 'w"

record ('x, 'w) kernel =
  k_vars :: "string \<rightharpoonup> 'x val"
  k_trace :: "'x event list"
  k_stdout :: "'x val list list"
  k_world :: 'w

definition fresh_kernel :: "'w \<Rightarrow> ('x, 'w) kernel" where
  "fresh_kernel w = \<lparr>k_vars = Map.empty, k_trace = [], k_stdout = [], k_world = w\<rparr>"

text \<open>An expression evaluates to a value or raises; a statement completes or raises.\<close>

type_synonym ('x, 'w) comp = "('x, 'w) ext \<Rightarrow> ('x, 'w) kernel \<Rightarrow> (py_exn + 'x val) \<times> ('x, 'w) kernel"

type_synonym ('x, 'w) stmt = "('x, 'w) ext \<Rightarrow> ('x, 'w) kernel \<Rightarrow> py_exn option \<times> ('x, 'w) kernel"

definition e_lit :: "'x val \<Rightarrow> ('x, 'w) comp" where
  "e_lit v ext s = (Inr v, s)"

definition e_var :: "string \<Rightarrow> ('x, 'w) comp" where
  "e_var x ext s = (case k_vars s x of None \<Rightarrow> (Inl (NameError x), s) | Some v \<Rightarrow> (Inr v, s))"

text \<open>Arguments are evaluated from left to right; the first exception ends it.\<close>

fun evals :: "('x, 'w) comp list \<Rightarrow> ('x, 'w) ext \<Rightarrow> ('x, 'w) kernel \<Rightarrow> (py_exn + 'x val list) \<times> ('x, 'w) kernel" where
  "evals [] ext s = (Inr [], s)"
| "evals (c # cs) ext s =
     (case c ext s of
        (Inl e, s1) \<Rightarrow> (Inl e, s1)
      | (Inr v, s1) \<Rightarrow>
          (case evals cs ext s1 of
             (Inl e, s2) \<Rightarrow> (Inl e, s2)
           | (Inr vs, s2) \<Rightarrow> (Inr (v # vs), s2)))"

definition e_call :: "string \<Rightarrow> ('x, 'w) comp list \<Rightarrow> ('x, 'w) comp" where
  "e_call label args ext s =
     (case evals args ext s of
        (Inl e, s1) \<Rightarrow> (Inl e, s1)
      | (Inr vs, s1) \<Rightarrow>
          (case ext label vs (k_world s1) of
             (r, w) \<Rightarrow> (r, s1\<lparr>k_trace := k_trace s1 @ [(label, vs, r)], k_world := w\<rparr>)))"

text \<open>A keyword argument \<open>name=c\<close>, a list or tuple display, a dict display.\<close>

definition e_kw :: "string \<Rightarrow> ('x, 'w) comp \<Rightarrow> ('x, 'w) comp" where
  "e_kw name c ext s = (case c ext s of (Inl e, s1) \<Rightarrow> (Inl e, s1) | (Inr v, s1) \<Rightarrow> (Inr (KwV name v), s1))"

definition e_list :: "('x, 'w) comp list \<Rightarrow> ('x, 'w) comp" where
  "e_list cs ext s = (case evals cs ext s of (Inl e, s1) \<Rightarrow> (Inl e, s1) | (Inr vs, s1) \<Rightarrow> (Inr (ListV vs), s1))"

text \<open>Integer arithmetic on Python's own integers.\<close>

definition e_arith :: "(int \<Rightarrow> int \<Rightarrow> int) \<Rightarrow> ('x, 'w) comp \<Rightarrow> ('x, 'w) comp \<Rightarrow> ('x, 'w) comp" where
  "e_arith f a b ext s =
     (case a ext s of
        (Inl e, s1) \<Rightarrow> (Inl e, s1)
      | (Inr x, s1) \<Rightarrow>
          (case b ext s1 of
             (Inl e, s2) \<Rightarrow> (Inl e, s2)
           | (Inr y, s2) \<Rightarrow>
               (case (x, y) of
                  (IntV i, IntV j) \<Rightarrow> (Inr (IntV (f i j)), s2)
                | _ \<Rightarrow> (Inl TypeError, s2))))"

text \<open>
  The elements of an iterable of Python's own: the characters of a string, the elements
  of a list or tuple, the keys of a dict. A third-party object is asked for its elements
  (\<open>label\<close> names the place) and must answer with a list. Nothing else is iterable.
\<close>

definition elements :: "'x val \<Rightarrow> 'x val list option" where
  "elements v =
     (case v of
        StrV cs \<Rightarrow> Some (map (\<lambda>c. StrV [c]) cs)
      | ListV vs \<Rightarrow> Some vs
      | DictV kvs \<Rightarrow> Some (map fst kvs)
      | _ \<Rightarrow> None)"

definition iterate :: "string \<Rightarrow> 'x val \<Rightarrow> ('x, 'w) ext \<Rightarrow> ('x, 'w) kernel \<Rightarrow> (py_exn + 'x val list) \<times> ('x, 'w) kernel" where
  "iterate label v ext s =
     (case elements v of
        Some vs \<Rightarrow> (Inr vs, s)
      | None \<Rightarrow>
          (case v of
             ExtV x \<Rightarrow>
               (case ext label [v] (k_world s) of
                  (r, w) \<Rightarrow>
                    (case r of
                       Inl e \<Rightarrow> (Inl e, s\<lparr>k_trace := k_trace s @ [(label, [v], r)], k_world := w\<rparr>)
                     | Inr (ListV vs) \<Rightarrow> (Inr vs, s\<lparr>k_trace := k_trace s @ [(label, [v], r)], k_world := w\<rparr>)
                     | Inr _ \<Rightarrow> (Inl TypeError, s\<lparr>k_trace := k_trace s @ [(label, [v], r)], k_world := w\<rparr>)))
           | _ \<Rightarrow> (Inl TypeError, s)))"

text \<open>
  \<open>[elem for x in it]\<close>: the variable of a comprehension is local to it, so whatever
  \<open>x\<close> was bound to outside is restored.
\<close>

fun comp_loop :: "('x, 'w) comp \<Rightarrow> string \<Rightarrow> 'x val list \<Rightarrow> ('x, 'w) ext \<Rightarrow> ('x, 'w) kernel \<Rightarrow> (py_exn + 'x val list) \<times> ('x, 'w) kernel" where
  "comp_loop elem x [] ext s = (Inr [], s)"
| "comp_loop elem x (v # vs) ext s =
     (case elem ext (s\<lparr>k_vars := (k_vars s)(x \<mapsto> v)\<rparr>) of
        (Inl e, s1) \<Rightarrow> (Inl e, s1)
      | (Inr r, s1) \<Rightarrow>
          (case comp_loop elem x vs ext s1 of
             (Inl e, s2) \<Rightarrow> (Inl e, s2)
           | (Inr rs, s2) \<Rightarrow> (Inr (r # rs), s2)))"

definition e_list_comp :: "('x, 'w) comp \<Rightarrow> string \<Rightarrow> string \<Rightarrow> ('x, 'w) comp \<Rightarrow> ('x, 'w) comp" where
  "e_list_comp elem x label it ext s =
     (case it ext s of
        (Inl e, s1) \<Rightarrow> (Inl e, s1)
      | (Inr v, s1) \<Rightarrow>
          (case iterate label v ext s1 of
             (Inl e, s2) \<Rightarrow> (Inl e, s2)
           | (Inr vs, s2) \<Rightarrow>
               (case comp_loop elem x vs ext s2 of
                  (r, s3) \<Rightarrow> (map_sum id ListV r, s3\<lparr>k_vars := (k_vars s3)(x := k_vars s x)\<rparr>))))"

text \<open>Statements: \<open>x = c\<close>, an expression on its own, \<open>a, b = c\<close>, \<open>print(...)\<close>.\<close>

definition s_assign :: "string \<Rightarrow> ('x, 'w) comp \<Rightarrow> ('x, 'w) stmt" where
  "s_assign x c ext s =
     (case c ext s of
        (Inl e, s1) \<Rightarrow> (Some e, s1)
      | (Inr v, s1) \<Rightarrow> (None, s1\<lparr>k_vars := (k_vars s1)(x \<mapsto> v)\<rparr>))"

definition s_expr :: "('x, 'w) comp \<Rightarrow> ('x, 'w) stmt" where
  "s_expr c ext s = (case c ext s of (Inl e, s1) \<Rightarrow> (Some e, s1) | (Inr v, s1) \<Rightarrow> (None, s1))"

definition s_assign2 :: "string \<Rightarrow> string \<Rightarrow> string \<Rightarrow> ('x, 'w) comp \<Rightarrow> ('x, 'w) stmt" where
  "s_assign2 x y label c ext s =
     (case c ext s of
        (Inl e, s1) \<Rightarrow> (Some e, s1)
      | (Inr v, s1) \<Rightarrow>
          (case iterate label v ext s1 of
             (Inl e, s2) \<Rightarrow> (Some e, s2)
           | (Inr [a, b], s2) \<Rightarrow> (None, s2\<lparr>k_vars := (k_vars s2)(x \<mapsto> a, y \<mapsto> b)\<rparr>)
           | (Inr _, s2) \<Rightarrow> (Some ValueError, s2)))"

definition s_print :: "('x, 'w) comp list \<Rightarrow> ('x, 'w) stmt" where
  "s_print args ext s =
     (case evals args ext s of
        (Inl e, s1) \<Rightarrow> (Some e, s1)
      | (Inr vs, s1) \<Rightarrow> (None, s1\<lparr>k_stdout := k_stdout s1 @ [vs]\<rparr>))"

text \<open>A block of statements stops at the first exception.\<close>

fun s_block :: "('x, 'w) stmt list \<Rightarrow> ('x, 'w) stmt" where
  "s_block [] ext s = (None, s)"
| "s_block (st # sts) ext s =
     (case st ext s of
        (Some e, s1) \<Rightarrow> (Some e, s1)
      | (None, s1) \<Rightarrow> s_block sts ext s1)"

text \<open>\<open>for x in it: body\<close>; the loop variable stays bound afterwards.\<close>

fun for_loop :: "string \<Rightarrow> 'x val list \<Rightarrow> ('x, 'w) stmt \<Rightarrow> ('x, 'w) stmt" where
  "for_loop x [] body ext s = (None, s)"
| "for_loop x (v # vs) body ext s =
     (case body ext (s\<lparr>k_vars := (k_vars s)(x \<mapsto> v)\<rparr>) of
        (Some e, s1) \<Rightarrow> (Some e, s1)
      | (None, s1) \<Rightarrow> for_loop x vs body ext s1)"

definition s_for :: "string \<Rightarrow> string \<Rightarrow> ('x, 'w) comp \<Rightarrow> ('x, 'w) stmt list \<Rightarrow> ('x, 'w) stmt" where
  "s_for x label it body ext s =
     (case it ext s of
        (Inl e, s1) \<Rightarrow> (Some e, s1)
      | (Inr v, s1) \<Rightarrow>
          (case iterate label v ext s1 of
             (Inl e, s2) \<Rightarrow> (Some e, s2)
           | (Inr vs, s2) \<Rightarrow> for_loop x vs (s_block body) ext s2))"


text \<open>The labels of the calls a run has made, in order.\<close>

definition labels :: "'x event list \<Rightarrow> string list" where
  "labels tr = map fst tr"




text \<open>
  A dict display, \<open>len(c)\<close> and \<open>range(c)\<close>. The length of a third-party object is
  asked of it.
\<close>

fun eval_items :: "(('x, 'w) comp \<times> ('x, 'w) comp) list \<Rightarrow> ('x, 'w) ext \<Rightarrow> ('x, 'w) kernel \<Rightarrow>
    (py_exn + ('x val \<times> 'x val) list) \<times> ('x, 'w) kernel" where
  "eval_items [] ext s = (Inr [], s)"
| "eval_items ((kc, c) # kcs) ext s =
     (case kc ext s of
        (Inl e, s0) \<Rightarrow> (Inl e, s0)
      | (Inr k, s0) \<Rightarrow>
          (case c ext s0 of
             (Inl e, s1) \<Rightarrow> (Inl e, s1)
           | (Inr v, s1) \<Rightarrow>
               (case eval_items kcs ext s1 of
                  (Inl e, s2) \<Rightarrow> (Inl e, s2)
                | (Inr kvs, s2) \<Rightarrow> (Inr ((k, v) # kvs), s2))))"

definition e_dict :: "(('x, 'w) comp \<times> ('x, 'w) comp) list \<Rightarrow> ('x, 'w) comp" where
  "e_dict kcs ext s =
     (case eval_items kcs ext s of (Inl e, s1) \<Rightarrow> (Inl e, s1) | (Inr kvs, s1) \<Rightarrow> (Inr (DictV kvs), s1))"

text \<open>\<open>{key: elem for x in it}\<close>.\<close>

fun dict_loop :: "('x, 'w) comp \<Rightarrow> ('x, 'w) comp \<Rightarrow> string \<Rightarrow> 'x val list \<Rightarrow> ('x, 'w) ext \<Rightarrow> ('x, 'w) kernel \<Rightarrow>
    (py_exn + ('x val \<times> 'x val) list) \<times> ('x, 'w) kernel" where
  "dict_loop key elem x [] ext s = (Inr [], s)"
| "dict_loop key elem x (v # vs) ext s =
     (case key ext (s\<lparr>k_vars := (k_vars s)(x \<mapsto> v)\<rparr>) of
        (Inl e, s0) \<Rightarrow> (Inl e, s0)
      | (Inr k, s0) \<Rightarrow>
          (case elem ext s0 of
             (Inl e, s1) \<Rightarrow> (Inl e, s1)
           | (Inr r, s1) \<Rightarrow>
               (case dict_loop key elem x vs ext s1 of
                  (Inl e, s2) \<Rightarrow> (Inl e, s2)
                | (Inr rs, s2) \<Rightarrow> (Inr ((k, r) # rs), s2))))"

definition e_dict_comp :: "('x, 'w) comp \<Rightarrow> ('x, 'w) comp \<Rightarrow> string \<Rightarrow> string \<Rightarrow> ('x, 'w) comp \<Rightarrow> ('x, 'w) comp" where
  "e_dict_comp key elem x label it ext s =
     (case it ext s of
        (Inl e, s1) \<Rightarrow> (Inl e, s1)
      | (Inr v, s1) \<Rightarrow>
          (case iterate label v ext s1 of
             (Inl e, s2) \<Rightarrow> (Inl e, s2)
           | (Inr vs, s2) \<Rightarrow>
               (case dict_loop key elem x vs ext s2 of
                  (r, s3) \<Rightarrow> (map_sum id DictV r, s3\<lparr>k_vars := (k_vars s3)(x := k_vars s x)\<rparr>))))"

definition e_len :: "string \<Rightarrow> ('x, 'w) comp \<Rightarrow> ('x, 'w) comp" where
  "e_len label c ext s =
     (case c ext s of
        (Inl e, s1) \<Rightarrow> (Inl e, s1)
      | (Inr v, s1) \<Rightarrow>
          (case v of
             StrV cs \<Rightarrow> (Inr (IntV (int (length cs))), s1)
           | ListV vs \<Rightarrow> (Inr (IntV (int (length vs))), s1)
           | DictV kvs \<Rightarrow> (Inr (IntV (int (length kvs))), s1)
           | ExtV x \<Rightarrow>
               (case ext label [v] (k_world s1) of
                  (r, w) \<Rightarrow> (r, s1\<lparr>k_trace := k_trace s1 @ [(label, [v], r)], k_world := w\<rparr>))
           | _ \<Rightarrow> (Inl TypeError, s1)))"

definition e_range :: "('x, 'w) comp \<Rightarrow> ('x, 'w) comp" where
  "e_range c ext s =
     (case c ext s of
        (Inl e, s1) \<Rightarrow> (Inl e, s1)
      | (Inr (IntV n), s1) \<Rightarrow> (Inr (ListV (map IntV [0..<nat n])), s1)
      | (Inr _, s1) \<Rightarrow> (Inl TypeError, s1))"

subsection \<open>DataInventory: the cells that call the Taster\<close>








subsection \<open>The stack-deblender notebook\<close>

text \<open>
  The code cells of the notebook, in order. A name that an \<open>import\<close> binds is a variable
  like any other; what is called on it is a third-party call with it as receiver.
  \<open>showRGB\<close> is the function of the section above; here a call of it is one step.
\<close>

definition s_import :: "string \<Rightarrow> string \<Rightarrow> ('x, 'w) stmt" where
  "s_import modname name = s_assign name (e_call ''import'' [e_lit (StrV modname), e_lit (StrV name)])"

definition cell_version :: "('x, 'w) stmt" where
  "cell_version = s_block
     [s_expr (e_call ''!'' [e_lit (StrV ''echo $HOSTNAME'')]),
      s_expr (e_call ''!'' [e_lit (StrV ''eups list -s | grep lsst_distrib'')])]"

definition cell_imports :: "('x, 'w) stmt" where
  "cell_imports = s_block
     [s_import ''numpy'' ''np'',
      s_import ''lsst.daf.persistence'' ''Butler'',
      s_import ''lsst.geom'' ''Box2I'', s_import ''lsst.geom'' ''Box2D'',
      s_import ''lsst.geom'' ''Point2I'', s_import ''lsst.geom'' ''Point2D'',
      s_import ''lsst.geom'' ''Extent2I'', s_import ''lsst.geom'' ''Extent2D'',
      s_import ''lsst.afw.image'' ''Exposure'', s_import ''lsst.afw.image'' ''Image'',
      s_import ''lsst.afw.image'' ''PARENT'', s_import ''lsst.afw.image'' ''MultibandExposure'',
      s_import ''lsst.afw.image'' ''MultibandImage'',
      s_import ''lsst.afw.detection'' ''MultibandFootprint'']"

definition cell_import_mbe :: "('x, 'w) stmt" where
  "cell_import_mbe = s_import ''lsst.afw.image'' ''MultibandExposure''"

text \<open>
  \<^verbatim>\<open>
  import desc_dc2_dm_data
  butler = desc_dc2_dm_data.get_butler("2.2i_dr6_wfd")
  \<close>
\<close>

definition cell_butler :: "('x, 'w) stmt" where
  "cell_butler = s_block
     [s_import ''desc_dc2_dm_data'' ''desc_dc2_dm_data'',
      s_assign ''butler''
        (e_call ''desc_dc2_dm_data.get_butler'' [e_var ''desc_dc2_dm_data'', e_lit (StrV ''2.2i_dr6_wfd'')])]"

text \<open>\<^verbatim>\<open>dataId = {"tract": 3830, "patch": "4,4"}\<close>\<close>

definition cell_dataId :: "('x, 'w) stmt" where
  "cell_dataId =
     s_assign ''dataId'' (e_dict [(e_lit (StrV ''tract''), e_lit (IntV 3830)), (e_lit (StrV ''patch''), e_lit (StrV ''4,4''))])"

text \<open>
  \<^verbatim>\<open>
  filters = "grizy"
  coadds = [butler.get("deepCoadd_calexp", dataId, filter=f) for f in filters]
  coadds = MultibandExposure.fromExposures(filters, coadds)
  \<close>
\<close>

definition cell_coadds :: "('x, 'w) stmt" where
  "cell_coadds = s_block
     [s_assign ''filters'' (e_lit (StrV ''grizy'')),
      s_assign ''coadds''
        (e_list_comp
           (e_call ''butler.get''
              [e_var ''butler'', e_lit (StrV ''deepCoadd_calexp''), e_var ''dataId'', e_kw ''filter'' (e_var ''f'')])
           ''f'' ''iter(filters)'' (e_var ''filters'')),
      s_assign ''coadds''
        (e_call ''MultibandExposure.fromExposures''
           [e_var ''MultibandExposure'', e_var ''filters'', e_var ''coadds''])]"

definition cell_import_plot :: "('x, 'w) stmt" where
  "cell_import_plot = s_block
     [s_import ''astropy.visualization'' ''make_lupton_rgb'',
      s_import ''matplotlib.pyplot'' ''plt'',
      s_expr (e_call ''%'' [e_lit (StrV ''matplotlib inline'')])]"

text \<open>\<open>def showRGB(...)\<close> binds the name.\<close>

definition cell_def_showRGB :: "('x, 'w) stmt" where
  "cell_def_showRGB = s_assign ''showRGB'' (e_lit (StrV ''def showRGB''))"

text \<open>
  \<^verbatim>\<open>showRGB(coadds[:"z"].image, figsize=(10, 10))\<close> and
  \<^verbatim>\<open>showRGB(coadds["i":].image, figsize=(10, 10))\<close>
\<close>

definition cell_show_gri :: "('x, 'w) stmt" where
  "cell_show_gri =
     s_expr (e_call ''showRGB''
       [e_var ''showRGB'',
        e_call ''.image'' [e_call ''coadds[]'' [e_var ''coadds'', e_lit (SliceV NoneV (StrV ''z''))]],
        e_kw ''figsize'' (e_list [e_lit (IntV 10), e_lit (IntV 10)])])"

definition cell_show_izy :: "('x, 'w) stmt" where
  "cell_show_izy =
     s_expr (e_call ''showRGB''
       [e_var ''showRGB'',
        e_call ''.image'' [e_call ''coadds[]'' [e_var ''coadds'', e_lit (SliceV (StrV ''i'') NoneV)]],
        e_kw ''figsize'' (e_list [e_lit (IntV 10), e_lit (IntV 10)])])"

text \<open>
  \<^verbatim>\<open>
  frame = 50
  clusterBBox = Box2I(Point2I(18325, 17725), Extent2I(400, 350))
  sampleBBox = Box2I(Point2I(16950-frame, 19400-frame), Extent2I(63+2*frame, 87+2*frame))

  subset = coadds[:, sampleBBox]
  for f in subset.filters:
      subset[f].setPsf(coadds[f].getPsf())
  \<close>
\<close>

definition cell_subset :: "('x, 'w) stmt" where
  "cell_subset = s_block
     [s_assign ''frame'' (e_lit (IntV 50)),
      s_assign ''clusterBBox''
        (e_call ''Box2I''
           [e_var ''Box2I'',
            e_call ''Point2I'' [e_var ''Point2I'', e_lit (IntV 18325), e_lit (IntV 17725)],
            e_call ''Extent2I'' [e_var ''Extent2I'', e_lit (IntV 400), e_lit (IntV 350)]]),
      s_assign ''sampleBBox''
        (e_call ''Box2I''
           [e_var ''Box2I'',
            e_call ''Point2I''
              [e_var ''Point2I'',
               e_arith (-) (e_lit (IntV 16950)) (e_var ''frame''),
               e_arith (-) (e_lit (IntV 19400)) (e_var ''frame'')],
            e_call ''Extent2I''
              [e_var ''Extent2I'',
               e_arith (+) (e_lit (IntV 63)) (e_arith (*) (e_lit (IntV 2)) (e_var ''frame'')),
               e_arith (+) (e_lit (IntV 87)) (e_arith (*) (e_lit (IntV 2)) (e_var ''frame''))]]),
      s_assign ''subset''
        (e_call ''coadds[]'' [e_var ''coadds'', e_lit (SliceV NoneV NoneV), e_var ''sampleBBox'']),
      s_for ''f'' ''iter(subset.filters)'' (e_call ''subset.filters'' [e_var ''subset''])
        [s_expr (e_call ''.setPsf''
           [e_call ''subset[]'' [e_var ''subset'', e_var ''f''],
            e_call ''.getPsf'' [e_call ''coadds[]'' [e_var ''coadds'', e_var ''f'']]])]]"

text \<open>\<^verbatim>\<open>showRGB(subset.image)\<close>\<close>

definition cell_show_subset :: "('x, 'w) stmt" where
  "cell_show_subset =
     s_expr (e_call ''showRGB'' [e_var ''showRGB'', e_call ''subset.image'' [e_var ''subset'']])"

definition cell_import_tasks :: "('x, 'w) stmt" where
  "cell_import_tasks = s_block
     [s_import ''lsst.meas.algorithms'' ''SourceDetectionTask'',
      s_import ''lsst.meas.extensions.scarlet.deblend'' ''ScarletDeblendTask'',
      s_import ''lsst.meas.base'' ''SingleFrameMeasurementTask'',
      s_import ''lsst.afw.table'' ''SourceCatalog'']"

text \<open>
  \<^verbatim>\<open>
  schema = SourceCatalog.Table.makeMinimalSchema()
  detectionTask = SourceDetectionTask(schema=schema)
  config = ScarletDeblendTask.ConfigClass()
  config.maxIter = 100
  deblendTask = ScarletDeblendTask(schema=schema, config=config)
  measureConfig = SingleFrameMeasurementTask.ConfigClass()
  measureConfig.plugins.names = ["base_SdssCentroid", "base_PsfFlux", "base_SkyCoord"]
  measureConfig.slots.apFlux = None
  measureConfig.slots.shape = None
  measureConfig.slots.modelFlux = None
  measureConfig.slots.calibFlux = None
  measureConfig.slots.gaussianFlux = None
  measureTask = SingleFrameMeasurementTask(config=measureConfig, schema=schema)
  \<close>
\<close>

definition cell_tasks :: "('x, 'w) stmt" where
  "cell_tasks = s_block
     [s_assign ''schema'' (e_call ''SourceCatalog.Table.makeMinimalSchema'' [e_var ''SourceCatalog'']),
      s_assign ''detectionTask''
        (e_call ''SourceDetectionTask'' [e_var ''SourceDetectionTask'', e_kw ''schema'' (e_var ''schema'')]),
      s_assign ''config'' (e_call ''ScarletDeblendTask.ConfigClass'' [e_var ''ScarletDeblendTask'']),
      s_expr (e_call ''config.maxIter='' [e_var ''config'', e_lit (IntV 100)]),
      s_assign ''deblendTask''
        (e_call ''ScarletDeblendTask''
           [e_var ''ScarletDeblendTask'', e_kw ''schema'' (e_var ''schema''), e_kw ''config'' (e_var ''config'')]),
      s_assign ''measureConfig''
        (e_call ''SingleFrameMeasurementTask.ConfigClass'' [e_var ''SingleFrameMeasurementTask'']),
      s_expr (e_call ''.names=''
        [e_call ''measureConfig.plugins'' [e_var ''measureConfig''],
         e_list [e_lit (StrV ''base_SdssCentroid''), e_lit (StrV ''base_PsfFlux''), e_lit (StrV ''base_SkyCoord'')]]),
      s_expr (e_call ''.apFlux='' [e_call ''measureConfig.slots'' [e_var ''measureConfig''], e_lit NoneV]),
      s_expr (e_call ''.shape='' [e_call ''measureConfig.slots'' [e_var ''measureConfig''], e_lit NoneV]),
      s_expr (e_call ''.modelFlux='' [e_call ''measureConfig.slots'' [e_var ''measureConfig''], e_lit NoneV]),
      s_expr (e_call ''.calibFlux='' [e_call ''measureConfig.slots'' [e_var ''measureConfig''], e_lit NoneV]),
      s_expr (e_call ''.gaussianFlux='' [e_call ''measureConfig.slots'' [e_var ''measureConfig''], e_lit NoneV]),
      s_assign ''measureTask''
        (e_call ''SingleFrameMeasurementTask''
           [e_var ''SingleFrameMeasurementTask'', e_kw ''config'' (e_var ''measureConfig''),
            e_kw ''schema'' (e_var ''schema'')])]"

text \<open>
  \<^verbatim>\<open>
  table = SourceCatalog.Table.make(schema)
  detectionResult = detectionTask.run(table, subset["r"])
  catalog = detectionResult.sources
  \<close>
\<close>

definition cell_detect :: "('x, 'w) stmt" where
  "cell_detect = s_block
     [s_assign ''table'' (e_call ''SourceCatalog.Table.make'' [e_var ''SourceCatalog'', e_var ''schema'']),
      s_assign ''detectionResult''
        (e_call ''detectionTask.run''
           [e_var ''detectionTask'', e_var ''table'',
            e_call ''subset[]'' [e_var ''subset'', e_lit (StrV ''r'')]]),
      s_assign ''catalog'' (e_call ''detectionResult.sources'' [e_var ''detectionResult''])]"

text \<open>\<^verbatim>\<open>catalog.schema\<close>\<close>

definition cell_schema :: "('x, 'w) stmt" where
  "cell_schema = s_expr (e_call ''catalog.schema'' [e_var ''catalog''])"

text \<open>\<^verbatim>\<open>footprint = catalog[0].getFootprint()\<close>\<close>

definition cell_footprint :: "('x, 'w) stmt" where
  "cell_footprint =
     s_assign ''footprint''
       (e_call ''.getFootprint'' [e_call ''catalog[]'' [e_var ''catalog'', e_lit (IntV 0)]])"

text \<open>\<^verbatim>\<open>print(footprint.getSpans())\<close> and \<^verbatim>\<open>print(footprint.getPeaks())\<close>\<close>

definition cell_spans :: "('x, 'w) stmt" where
  "cell_spans = s_print [e_call ''footprint.getSpans'' [e_var ''footprint'']]"

definition cell_peaks :: "('x, 'w) stmt" where
  "cell_peaks = s_print [e_call ''footprint.getPeaks'' [e_var ''footprint'']]"

text \<open>
  \<^verbatim>\<open>
  for src in catalog:
      fp = src.getFootprint()
      img = coadds[:,fp.getBBox()].image
      mfp = MultibandFootprint.fromImages(coadds.filters, image=img, footprint=fp)
      showRGB(mfp.getImage().image, fp=fp, figsize=(3,3))
  \<close>
\<close>

definition cell_show_footprints :: "('x, 'w) stmt" where
  "cell_show_footprints =
     s_for ''src'' ''iter(catalog)'' (e_var ''catalog'')
       [s_assign ''fp'' (e_call ''src.getFootprint'' [e_var ''src'']),
        s_assign ''img''
          (e_call ''.image''
             [e_call ''coadds[]''
                [e_var ''coadds'', e_lit (SliceV NoneV NoneV), e_call ''fp.getBBox'' [e_var ''fp'']]]),
        s_assign ''mfp''
          (e_call ''MultibandFootprint.fromImages''
             [e_var ''MultibandFootprint'', e_call ''coadds.filters'' [e_var ''coadds''],
              e_kw ''image'' (e_var ''img''), e_kw ''footprint'' (e_var ''fp'')]),
        s_expr (e_call ''showRGB''
          [e_var ''showRGB'', e_call ''.image'' [e_call ''mfp.getImage'' [e_var ''mfp'']],
           e_kw ''fp'' (e_var ''fp''), e_kw ''figsize'' (e_list [e_lit (IntV 3), e_lit (IntV 3)])])]"

text \<open>\<^verbatim>\<open>_, templateCatalog = deblendTask.run(coadds, catalog)\<close>\<close>

definition cell_deblend :: "('x, 'w) stmt" where
  "cell_deblend =
     s_assign2 ''_'' ''templateCatalog'' ''unpack(deblendTask.run)''
       (e_call ''deblendTask.run'' [e_var ''deblendTask'', e_var ''coadds'', e_var ''catalog''])"

text \<open>
  \<^verbatim>\<open>
  measureTask.run(templateCatalog["r"], coadds['r'])
  measureTask.run(templateCatalog["i"], coadds['i'])
  \<close>
\<close>

definition cell_measure :: "('x, 'w) stmt" where
  "cell_measure = s_block
     [s_expr (e_call ''measureTask.run''
        [e_var ''measureTask'',
         e_call ''templateCatalog[]'' [e_var ''templateCatalog'', e_lit (StrV ''r'')],
         e_call ''coadds[]'' [e_var ''coadds'', e_lit (StrV ''r'')]]),
      s_expr (e_call ''measureTask.run''
        [e_var ''measureTask'',
         e_call ''templateCatalog[]'' [e_var ''templateCatalog'', e_lit (StrV ''i'')],
         e_call ''coadds[]'' [e_var ''coadds'', e_lit (StrV ''i'')]])]"

text \<open>
  \<^verbatim>\<open>
  import lsst.afw.table as afwTable

  for f in filters:
      _catalog = afwTable.SourceCatalog(templateCatalog[f].table.clone())
      _catalog.extend(templateCatalog[f], deep=True)
      templateCatalog[f] = _catalog
  \<close>
\<close>

definition cell_contiguous :: "('x, 'w) stmt" where
  "cell_contiguous = s_block
     [s_import ''lsst.afw.table'' ''afwTable'',
      s_for ''f'' ''iter(filters)'' (e_var ''filters'')
        [s_assign ''_catalog''
           (e_call ''afwTable.SourceCatalog''
              [e_var ''afwTable'',
               e_call ''.clone'' [e_call ''.table'' [e_call ''templateCatalog[]'' [e_var ''templateCatalog'', e_var ''f'']]]]),
         s_expr (e_call ''_catalog.extend''
           [e_var ''_catalog'', e_call ''templateCatalog[]'' [e_var ''templateCatalog'', e_var ''f''],
            e_kw ''deep'' (e_lit (StrV ''True''))]),
         s_expr (e_call ''templateCatalog[]='' [e_var ''templateCatalog'', e_var ''f'', e_var ''_catalog''])]]"

text \<open>
  \<^verbatim>\<open>
  from lsst.afw.detection import MultibandFootprint
  from lsst.afw.image import MultibandImage

  parentIdx = 13
  templateModel = MultibandImage.fromImages(coadds.filters,
      [Image(templateCatalog["r"][parentIdx].getFootprint().getBBox(), dtype=np.float32)
       for b in range(len(filters))])
  parentId = templateCatalog["r"][parentIdx].get("id")
  templateChildren = {b: templateCatalog[b][templateCatalog[b].get("parent")==parentId] for b in filters}

  for n in range(len(templateChildren["r"])):
      fp = MultibandFootprint(coadds.filters, [templateChildren[b][n].getFootprint() for b in filters])
      templateModel[:, fp.getBBox()].array += fp.getImage(fill=0).image.array
      showRGB(fp.getImage().image)
      plt.show()

  templateResidual = MultibandImage(coadds.filters,
      coadds[:, templateModel.getBBox()].image.array - templateModel.array)
  \<close>
\<close>

definition cell_model :: "('x, 'w) stmt" where
  "cell_model = s_block
     [s_import ''lsst.afw.detection'' ''MultibandFootprint'',
      s_import ''lsst.afw.image'' ''MultibandImage'',
      s_assign ''parentIdx'' (e_lit (IntV 13)),
      s_assign ''templateModel''
        (e_call ''MultibandImage.fromImages''
           [e_var ''MultibandImage'', e_call ''coadds.filters'' [e_var ''coadds''],
            e_list_comp
              (e_call ''Image''
                 [e_var ''Image'',
                  e_call ''.getBBox'' [e_call ''.getFootprint''
                    [e_call ''[]'' [e_call ''templateCatalog[]'' [e_var ''templateCatalog'', e_lit (StrV ''r'')],
                                   e_var ''parentIdx'']]],
                  e_kw ''dtype'' (e_call ''np.float32'' [e_var ''np''])])
              ''b'' ''iter(range)'' (e_range (e_len ''len(filters)'' (e_var ''filters'')))]),
      s_assign ''parentId''
        (e_call ''.get''
           [e_call ''[]'' [e_call ''templateCatalog[]'' [e_var ''templateCatalog'', e_lit (StrV ''r'')],
                          e_var ''parentIdx''],
            e_lit (StrV ''id'')]),
      s_assign ''templateChildren''
        (e_dict_comp (e_var ''b'')
           (e_call ''[]''
              [e_call ''templateCatalog[]'' [e_var ''templateCatalog'', e_var ''b''],
               e_call ''==''
                 [e_call ''.get'' [e_call ''templateCatalog[]'' [e_var ''templateCatalog'', e_var ''b''],
                                  e_lit (StrV ''parent'')],
                  e_var ''parentId'']])
           ''b'' ''iter(filters)'' (e_var ''filters'')),
      s_for ''n'' ''iter(range)''
        (e_range (e_len ''len(templateChildren[])''
           (e_call ''templateChildren[]'' [e_var ''templateChildren'', e_lit (StrV ''r'')])))
        [s_assign ''fp''
           (e_call ''MultibandFootprint''
              [e_var ''MultibandFootprint'', e_call ''coadds.filters'' [e_var ''coadds''],
               e_list_comp
                 (e_call ''.getFootprint''
                    [e_call ''[]'' [e_call ''templateChildren[]'' [e_var ''templateChildren'', e_var ''b''],
                                   e_var ''n'']])
                 ''b'' ''iter(filters)'' (e_var ''filters'')]),
         s_expr (e_call ''.array+=''
           [e_call ''templateModel[]''
              [e_var ''templateModel'', e_lit (SliceV NoneV NoneV), e_call ''fp.getBBox'' [e_var ''fp'']],
            e_call ''.array'' [e_call ''.image''
              [e_call ''fp.getImage'' [e_var ''fp'', e_kw ''fill'' (e_lit (IntV 0))]]]]),
         s_expr (e_call ''showRGB''
           [e_var ''showRGB'', e_call ''.image'' [e_call ''fp.getImage'' [e_var ''fp'']]]),
         s_expr (e_call ''plt.show'' [e_var ''plt''])],
      s_assign ''templateResidual''
        (e_call ''MultibandImage''
           [e_var ''MultibandImage'', e_call ''coadds.filters'' [e_var ''coadds''],
            e_call ''-''
              [e_call ''.array'' [e_call ''.image''
                 [e_call ''coadds[]''
                    [e_var ''coadds'', e_lit (SliceV NoneV NoneV),
                     e_call ''templateModel.getBBox'' [e_var ''templateModel'']]]],
               e_call ''templateModel.array'' [e_var ''templateModel'']]])]"

text \<open>
  \<^verbatim>\<open>
  fig = plt.figure(figsize=(15,10))
  ax = [fig.add_subplot(1,2,n+1) for n in range(2)]
  showRGB(coadds[:,fp.getBBox()].image, ax=ax[0])
  showRGB(templateModel, ax=ax[1])
  \<close>
\<close>

definition cell_compare :: "('x, 'w) stmt" where
  "cell_compare = s_block
     [s_assign ''fig''
        (e_call ''plt.figure'' [e_var ''plt'', e_kw ''figsize'' (e_list [e_lit (IntV 15), e_lit (IntV 10)])]),
      s_assign ''ax''
        (e_list_comp
           (e_call ''fig.add_subplot''
              [e_var ''fig'', e_lit (IntV 1), e_lit (IntV 2), e_arith (+) (e_var ''n'') (e_lit (IntV 1))])
           ''n'' ''iter(range)'' (e_range (e_lit (IntV 2)))),
      s_expr (e_call ''showRGB''
        [e_var ''showRGB'',
         e_call ''.image''
           [e_call ''coadds[]''
              [e_var ''coadds'', e_lit (SliceV NoneV NoneV), e_call ''fp.getBBox'' [e_var ''fp'']]],
         e_kw ''ax'' (e_call ''ax[]'' [e_var ''ax'', e_lit (IntV 0)])]),
      s_expr (e_call ''showRGB''
        [e_var ''showRGB'', e_var ''templateModel'',
         e_kw ''ax'' (e_call ''ax[]'' [e_var ''ax'', e_lit (IntV 1)])])]"

text \<open>The notebook, run from top to bottom: the first cell that raises ends the run.\<close>

definition deblender_cells :: "('x, 'w) stmt list" where
  "deblender_cells =
     [cell_version, cell_imports, cell_import_mbe, cell_butler, cell_dataId, cell_coadds,
      cell_import_plot, cell_def_showRGB, cell_show_gri, cell_show_izy, cell_subset,
      cell_show_subset, cell_import_tasks, cell_tasks, cell_detect, cell_schema,
      cell_footprint, cell_spans, cell_peaks, cell_show_footprints, cell_deblend,
      cell_measure, cell_contiguous, cell_model, cell_compare]"

definition deblender_notebook :: "('x, 'w) stmt" where
  "deblender_notebook = s_block deblender_cells"

text \<open>
  The calls of the four stages, and what a run has to respect. Reading the calls of a
  run in order: \<open>detectionTask.run\<close> may come only after five \<open>butler.get\<close> have
  returned; \<open>deblendTask.run\<close> must be given a catalog that is the \<open>sources\<close> of
  something \<open>detectionTask.run\<close> returned; \<open>measureTask.run\<close> must be given a
  catalog that is an item of the second of the two things \<open>deblendTask.run\<close> returned.
  \<open>in_order\<close> records whether every call so far did.
\<close>

record 'x stage =
  n_gets :: nat
  detected :: "'x val list"
  catalogs :: "'x val list"
  deblended :: "'x val list"
  templates :: "'x val list"
  template_bands :: "'x val list"
  in_order :: bool

definition stage0 :: "'x stage" where
  "stage0 = \<lparr>n_gets = 0, detected = [], catalogs = [], deblended = [], templates = [],
             template_bands = [], in_order = True\<rparr>"

definition second_of :: "'x val \<Rightarrow> 'x val list" where
  "second_of v = (case elements v of Some [a, b] \<Rightarrow> [b] | _ \<Rightarrow> [])"

fun stage_step :: "'x stage \<Rightarrow> 'x event \<Rightarrow> 'x stage" where
  "stage_step a (label, args, r) =
     (if label = ''butler.get'' then
        (case r of Inr v \<Rightarrow> a\<lparr>n_gets := Suc (n_gets a)\<rparr> | Inl e \<Rightarrow> a)
      else if label = ''detectionTask.run'' then
        (case r of
           Inr v \<Rightarrow> a\<lparr>in_order := in_order a \<and> 5 \<le> n_gets a, detected := v # detected a\<rparr>
         | Inl e \<Rightarrow> a\<lparr>in_order := in_order a \<and> 5 \<le> n_gets a\<rparr>)
      else if label = ''detectionResult.sources'' then
        (case (args, r) of
           ([d], Inr v) \<Rightarrow> if d \<in> set (detected a) then a\<lparr>catalogs := v # catalogs a\<rparr> else a
         | _ \<Rightarrow> a)
      else if label = ''deblendTask.run'' then
        (case r of
           Inr v \<Rightarrow> a\<lparr>in_order := in_order a \<and> 2 < length args \<and> args ! 2 \<in> set (catalogs a),
                      deblended := v # deblended a, templates := second_of v @ templates a\<rparr>
         | Inl e \<Rightarrow> a\<lparr>in_order := in_order a \<and> 2 < length args \<and> args ! 2 \<in> set (catalogs a)\<rparr>)
      else if label = ''unpack(deblendTask.run)'' then
        (case (args, r) of
           ([d], Inr (ListV [x, t])) \<Rightarrow> if d \<in> set (deblended a) then a\<lparr>templates := t # templates a\<rparr> else a
         | _ \<Rightarrow> a)
      else if label = ''templateCatalog[]'' then
        (case (args, r) of
           ([t, k], Inr v) \<Rightarrow> if t \<in> set (templates a) then a\<lparr>template_bands := v # template_bands a\<rparr> else a
         | _ \<Rightarrow> a)
      else if label = ''measureTask.run'' then
        a\<lparr>in_order := in_order a \<and> 1 < length args \<and> args ! 1 \<in> set (template_bands a)\<rparr>
      else a)"

definition stage_of :: "'x event list \<Rightarrow> 'x stage" where
  "stage_of tr = foldl stage_step stage0 tr"

definition stage_calls :: "'x event list \<Rightarrow> string list" where
  "stage_calls tr =
     filter (\<lambda>l. l \<in> set [''butler.get'', ''detectionTask.run'', ''deblendTask.run'', ''measureTask.run''])
       (labels tr)"

definition pipeline :: "string list" where
  "pipeline = [''butler.get'', ''butler.get'', ''butler.get'', ''butler.get'', ''butler.get'',
               ''detectionTask.run'', ''deblendTask.run'', ''measureTask.run'', ''measureTask.run'']"

text \<open>
  Two judgements about a piece of a cell. It is \<open>framed L X\<close> when, whatever the
  third-party calls do, it makes no call labelled in \<open>L\<close> and leaves the variables in
  \<open>X\<close> as they are. \<open>hoare P st Q R\<close>: from a state in \<open>P\<close> the statement ends in \<open>Q\<close> when
  it completes and in \<open>R\<close> when it raises.
\<close>

definition frame_rel :: "string set \<Rightarrow> string set \<Rightarrow> ('x, 'w) kernel \<Rightarrow> ('x, 'w) kernel \<Rightarrow> bool" where
  "frame_rel L X s s' \<longleftrightarrow>
     (\<exists>evs. k_trace s' = k_trace s @ evs \<and> (\<forall>ev \<in> set evs. fst ev \<notin> L)) \<and>
     (\<forall>x \<in> X. k_vars s' x = k_vars s x)"

definition framed :: "string set \<Rightarrow> string set \<Rightarrow> (('x, 'w) ext \<Rightarrow> ('x, 'w) kernel \<Rightarrow> 'r \<times> ('x, 'w) kernel) \<Rightarrow> bool" where
  "framed L X f \<longleftrightarrow> (\<forall>ext s. frame_rel L X s (snd (f ext s)))"

definition hoare :: "(('x, 'w) kernel \<Rightarrow> bool) \<Rightarrow> ('x, 'w) stmt \<Rightarrow> (('x, 'w) kernel \<Rightarrow> bool) \<Rightarrow>
    (('x, 'w) kernel \<Rightarrow> bool) \<Rightarrow> bool" where
  "hoare P st Q R \<longleftrightarrow>
     (\<forall>ext s. P s \<longrightarrow> (case st ext s of (None, s') \<Rightarrow> Q s' | (Some e, s') \<Rightarrow> R s'))"

text \<open>
  The labels the stage record reacts to, the four calls of the stages, and the variables
  that carry a stage's result to the next.
\<close>

definition stage_labels :: "string set" where
  "stage_labels = {''butler.get'', ''detectionTask.run'', ''detectionResult.sources'', ''deblendTask.run'',
                   ''unpack(deblendTask.run)'', ''templateCatalog[]'', ''measureTask.run''}"

definition stage_call_labels :: "string set" where
  "stage_call_labels = {''butler.get'', ''detectionTask.run'', ''deblendTask.run'', ''measureTask.run''}"

definition stage_vars :: "string set" where
  "stage_vars = {''detectionResult'', ''catalog'', ''templateCatalog''}"

text \<open>
  What holds between the cells of a run: the calls so far were in order, and each of
  the three variables, if bound, holds what its stage produced. \<open>phase n\<close>: the stage
  calls so far are exactly the first \<open>n\<close> of the pipeline, and they returned.
\<close>

definition carries :: "('x, 'w) kernel \<Rightarrow> bool" where
  "carries s \<longleftrightarrow>
     in_order (stage_of (k_trace s)) \<and>
     (\<forall>v. k_vars s ''detectionResult'' = Some v \<longrightarrow> v \<in> set (detected (stage_of (k_trace s)))) \<and>
     (\<forall>v. k_vars s ''catalog'' = Some v \<longrightarrow> v \<in> set (catalogs (stage_of (k_trace s)))) \<and>
     (\<forall>v. k_vars s ''templateCatalog'' = Some v \<longrightarrow> v \<in> set (templates (stage_of (k_trace s))))"

definition phase :: "nat \<Rightarrow> ('x, 'w) kernel \<Rightarrow> bool" where
  "phase n s \<longleftrightarrow>
     carries s \<and> stage_calls (k_trace s) = take n pipeline \<and>
     n_gets (stage_of (k_trace s)) = min n 5"

definition halted :: "('x, 'w) kernel \<Rightarrow> bool" where
  "halted s \<longleftrightarrow> in_order (stage_of (k_trace s)) \<and> prefix (stage_calls (k_trace s)) pipeline"

definition completed :: "('x, 'w) kernel \<Rightarrow> bool" where
  "completed s \<longleftrightarrow> in_order (stage_of (k_trace s)) \<and> stage_calls (k_trace s) = pipeline"

section \<open>Properties\<close>

subsection \<open>Inverse-variance weights\<close>

lemma weights_cell_shape: "shape (weights_cell var) = shape var"
  by (simp add: weights_cell_def np_rtruediv_def np_power_def)

lemma weights_cell_length: "length (data (weights_cell var)) = length (data var)"
  by (simp add: weights_cell_def np_rtruediv_def np_power_def)

lemma weights_cell_not_inverse_variance:
  "weights_cell \<lparr>shape = [1], data = [2::real]\<rparr> \<noteq> np_rtruediv 1 \<lparr>shape = [1], data = [2::real]\<rparr>"
  by (simp add: weights_cell_def np_rtruediv_def np_power_def)

text \<open>
  C9. The weights array passed to \<open>scarlet.Observation\<close> has the shape of the variance
  plane, and its element at every position \<open>i\<close> is \<open>1 / var[i] ^ 2\<close>: the reciprocal
  of the square of the variance, not of the variance.
\<close>

theorem observation_weights_inverse_squared_variance:
  "shape (obs_weights (observation_cell images psfs filters var)) = shape var \<and>
   length (data (obs_weights (observation_cell images psfs filters var))) = length (data var) \<and>
   (\<forall>i. i < length (data var) \<longrightarrow>
      data (obs_weights (observation_cell images psfs filters var)) ! i = 1 / (data var ! i) ^ 2)"
  by (simp add: observation_cell_def weights_cell_def np_rtruediv_def np_power_def)

theorem observation_weights_inverse_squared_variance_witness:
  "data (obs_weights (observation_cell \<lparr>shape = [2], data = [5, 7]\<rparr> () ''ugrizy''
      \<lparr>shape = [2], data = [2, 4::real]\<rparr>)) ! 1 = 1 / 16"
  using observation_weights_inverse_squared_variance
    [of "\<lparr>shape = [2], data = [5, 7]\<rparr>" "()" "''ugrizy''" "\<lparr>shape = [2], data = [2, 4::real]\<rparr>"]
  by simp

subsection \<open>showRGB\<close>







lemma getitem_Cons3 [simp]:
  "getitem (f0 # f1 # f2 # rest) 0 = Inr f0"
  "getitem (f0 # f1 # f2 # rest) 1 = Inr f1"
  "getitem (f0 # f1 # f2 # rest) 2 = Inr f2"
  "getitem (f0 # f1 # f2 # rest) (Suc 0) = Inr f1"
  by (simp_all add: getitem_def)












subsection \<open>makeCatalog\<close>

lemma bind_exn_simps [simp]:
  "bind_exn (Inl e) f = Inl e"
  "bind_exn (Inr x) f = f x"
  by (simp_all add: bind_exn_def)


lemma lookup_simps [simp]:
  "lookup name None = Inl (NameError name)"
  "lookup name (Some x) = Inr x"
  by (simp_all add: lookup_def)







lemma bg_rms_loop_returns:
  "\<forall>d \<in> set datas. \<exists>r. mw (data_images d) = Inr r \<Longrightarrow>
   \<exists>rs. bg_rms_loop (Some mw) datas acc = Inr rs"
proof (induction datas arbitrary: acc)
  case Nil
  then show ?case by simp
next
  case (Cons d ds)
  then obtain r where "mw (data_images d) = Inr r" by auto
  with Cons show ?case by simp
qed

lemma makeCatalog_steps:
  assumes "ns_sep ns = Some sep" and "ns_datas ns = Some datas" and "ns_mad_wavelet ns = Some mw"
    and "\<forall>d \<in> set datas. \<exists>r. mw (data_images d) = Inr r"
    and "detection_image ns meth cube wave = Inr detect"
    and "sep_Background sep detect = Inr bkg"
    and "sep_extract sep detect lvl (sep_globalrms sep bkg) = Inr catalog"
  shows "makeCatalog ns meth cube lvl wave = Inr catalog"
proof -
  from bg_rms_loop_returns [OF assms(4)] obtain rs where
    loop: "bg_rms_loop (Some mw) datas [] = Inr rs" by blast
  show ?thesis
  proof (cases "length datas = 1")
    case True
    then obtain d where d: "datas = [d]" by (cases datas) auto
    with assms(4) obtain r where "mw (data_images d) = Inr r" by auto
    with assms d show ?thesis
      by (simp add: makeCatalog_def makeCatalog_body_def getitem_def)
  next
    case False
    with assms loop show ?thesis
      by (simp add: makeCatalog_def makeCatalog_body_def)
  qed
qed

lemma detection_image_cases:
  assumes "ns_np ns = Some np" and "ns_Starlet ns = Some st"
    and "np_sum_axis0 np cube = Inr detect_image"
  shows "detection_image ns meth cube wave =
     (if length (shape detect_image) = 3 \<and> wave then
        bind_exn (mean_axis0 meth detect_image) (\<lambda>band_mean.
        bind_exn (Starlet_coefficients st band_mean (Some 4)) (\<lambda>wave_detect.
        bind_exn (setitem_last_scale_zero wave_detect) (Starlet_image st)))
      else if length (shape detect_image) = 3 then mean_axis0 meth detect_image
      else if wave then
        bind_exn (Starlet_coefficients st detect_image None) (\<lambda>wave_detect.
        bind_exn (getitem0 wave_detect) getitem0)
      else Inr detect_image)"
  using assms by (simp add: detection_image_def)




text \<open>
  C2. The call the notebook comments out, \<open>makeCatalog(images)\<close> on a cube of bands,
  with \<open>lvl = 3\<close> and \<open>wave = True\<close>: in the notebook's namespace it raises
  \<open>NameError\<close> for \<open>sep\<close>; with \<open>sep\<close> imported, for \<open>datas\<close>; with \<open>datas\<close>
  bound as well, for \<open>mad_wavelet\<close>. Only with all three bound it returns the catalog
  of \<open>sep.extract(detect, lvl, err=bkg.globalrms)\<close>.
\<close>

theorem makeCatalog_call_fails:
  "makeCatalog ex_notebook ex_meth ex_cube 3 True = Inl (NameError ''sep'') \<and>
   makeCatalog (ex_notebook\<lparr>ns_sep := Some ex_sep\<rparr>) ex_meth ex_cube 3 True = Inl (NameError ''datas'') \<and>
   makeCatalog (ex_notebook\<lparr>ns_sep := Some ex_sep, ns_datas := Some [\<lparr>data_images = ex_cube\<rparr>]\<rparr>)
      ex_meth ex_cube 3 True = Inl (NameError ''mad_wavelet'') \<and>
   makeCatalog (ex_notebook\<lparr>ns_sep := Some ex_sep, ns_datas := Some [\<lparr>data_images = ex_cube\<rparr>],
        ns_mad_wavelet := Some (\<lambda>img. Inr 0)\<rparr>)
      ex_meth ex_cube 3 True = Inr ([6, 8, 10, 12], 3, 36)"
  by code_simp

subsection \<open>Repository discovery\<close>

lemma np_unique_props:
  "sorted (np_unique xs) \<and> distinct (np_unique xs) \<and> set (np_unique xs) = set xs"
  by (simp add: np_unique_def)

lemma glob_match_iff:
  "glob_match pre suf p \<longleftrightarrow> (\<exists>X. plain_name X \<and> p = pre @ X @ suf)"
proof
  assume m: "glob_match pre suf p"
  define X where "X = take (length p - length pre - length suf) (drop (length pre) p)"
  from m have len: "length pre + length suf \<le> length p" and pre: "take (length pre) p = pre"
    and suf: "drop (length p - length suf) p = suf" and pl: "plain_name X"
    by (simp_all add: glob_match_def X_def)
  have "p = take (length pre) p @ drop (length pre) p" by simp
  also have "drop (length pre) p = X @ drop (length p - length pre - length suf) (drop (length pre) p)"
    unfolding X_def by (rule append_take_drop_id [symmetric])
  also have "drop (length p - length pre - length suf) (drop (length pre) p) = drop (length p - length suf) p"
    using len by (simp add: add.commute)
  finally have "p = pre @ X @ suf" using pre suf by simp
  with pl show "\<exists>X. plain_name X \<and> p = pre @ X @ suf" by blast
next
  assume "\<exists>X. plain_name X \<and> p = pre @ X @ suf"
  then obtain X where "plain_name X" "p = pre @ X @ suf" by blast
  then show "glob_match pre suf p" by (simp add: glob_match_def)
qed

lemma set_glob: "set (glob pre suf fs) = {p \<in> set fs. glob_match pre suf p}"
  by (auto simp: glob_def)

lemma set_fst_ls_d: "set (fst (ls_d pre suf fs)) = {p \<in> set fs. glob_match pre suf p}"
proof (cases "glob pre suf fs = []")
  case True
  then have "{p \<in> set fs. glob_match pre suf p} = {}" using set_glob [of pre suf fs] by simp
  with True show ?thesis by (simp add: ls_d_def)
next
  case False
  then show ?thesis by (simp add: ls_d_def set_glob)
qed

lemma split_on_no_delim: "d \<notin> set seg \<Longrightarrow> split_on d seg = [seg]"
  by (induction seg) auto

lemma split_on_segment: "d \<notin> set seg \<Longrightarrow> split_on d (seg @ d # rest) = seg # split_on d rest"
  by (induction seg) auto

lemma split_on_nonempty: "split_on d l \<noteq> []"
  by (induction l) (auto split: list.splits)

lemma set_sort_uniq: "set (sort_uniq ls) = set ls"
  by (simp add: sort_uniq_def)

lemma cut_shared:
  assumes "CHR ''/'' \<notin> set X" and "CHR ''/'' \<notin> set m"
  shows "join CHR ''/'' (take 5 (split_on CHR ''/'' (''/project/shared/data/'' @ X @ CHR ''/'' # m))) =
         ''/project/shared/data/'' @ X"
proof -
  have s5: "split_on CHR ''/'' (X @ CHR ''/'' # m) = [X, m]"
    using assms by (simp add: split_on_segment split_on_no_delim)
  have s4: "split_on CHR ''/'' (''data'' @ CHR ''/'' # (X @ CHR ''/'' # m)) = ''data'' # [X, m]"
    by (subst split_on_segment) (simp_all add: s5)
  have s3: "split_on CHR ''/'' (''shared'' @ CHR ''/'' # (''data'' @ CHR ''/'' # (X @ CHR ''/'' # m))) =
            ''shared'' # ''data'' # [X, m]"
    by (subst split_on_segment) (simp_all only: s4, simp_all)
  have s2: "split_on CHR ''/'' (''project'' @ CHR ''/'' # (''shared'' @ CHR ''/'' # (''data'' @ CHR ''/'' # (X @ CHR ''/'' # m)))) =
            ''project'' # ''shared'' # ''data'' # [X, m]"
    by (subst split_on_segment) (simp_all only: s3, simp_all)
  have s1: "split_on CHR ''/'' ([] @ CHR ''/'' # (''project'' @ CHR ''/'' # (''shared'' @ CHR ''/'' # (''data'' @ CHR ''/'' # (X @ CHR ''/'' # m))))) =
            [] # ''project'' # ''shared'' # ''data'' # [X, m]"
    by (subst split_on_segment) (simp_all only: s2, simp_all)
  have e: "''/project/shared/data/'' @ X @ CHR ''/'' # m =
           [] @ CHR ''/'' # (''project'' @ CHR ''/'' # (''shared'' @ CHR ''/'' # (''data'' @ CHR ''/'' # (X @ CHR ''/'' # m))))"
    by simp
  show ?thesis unfolding e s1 by simp
qed

lemma cut_datasets:
  assumes "CHR ''/'' \<notin> set X" and "CHR ''/'' \<notin> set m"
  shows "join CHR ''/'' (take 4 (split_on CHR ''/'' (''/datasets/'' @ X @ ''/repo/'' @ m))) =
         ''/datasets/'' @ X @ ''/repo''"
proof -
  have s4: "split_on CHR ''/'' (''repo'' @ CHR ''/'' # m) = [''repo'', m]"
    using assms by (subst split_on_segment) (simp_all add: split_on_no_delim)
  have s3: "split_on CHR ''/'' (X @ CHR ''/'' # (''repo'' @ CHR ''/'' # m)) = X # [''repo'', m]"
    using assms by (subst split_on_segment) (simp_all only: s4, simp_all)
  have s2: "split_on CHR ''/'' (''datasets'' @ CHR ''/'' # (X @ CHR ''/'' # (''repo'' @ CHR ''/'' # m))) =
            ''datasets'' # X # [''repo'', m]"
    by (subst split_on_segment) (simp_all only: s3, simp_all)
  have s1: "split_on CHR ''/'' ([] @ CHR ''/'' # (''datasets'' @ CHR ''/'' # (X @ CHR ''/'' # (''repo'' @ CHR ''/'' # m)))) =
            [] # ''datasets'' # X # [''repo'', m]"
    by (subst split_on_segment) (simp_all only: s2, simp_all)
  have e: "''/datasets/'' @ X @ ''/repo/'' @ m =
           [] @ CHR ''/'' # (''datasets'' @ CHR ''/'' # (X @ CHR ''/'' # (''repo'' @ CHR ''/'' # m)))"
    by simp
  show ?thesis unfolding e s1 by simp
qed

lemma cut_grep_mem:
  assumes cut: "\<And>Y. plain_name Y \<Longrightarrow> join CHR ''/'' (take n (split_on CHR ''/'' (pre @ Y @ suf))) = pre' @ Y @ suf'"
    and X: "plain_name X"
  shows "pre' @ X @ suf' \<in> set (cut_fields n (grep_v pat (fst (ls_d pre suf fs)))) \<longleftrightarrow>
         pre @ X @ suf \<in> set fs \<and> \<not> sublist pat (pre @ X @ suf)"
proof
  assume "pre' @ X @ suf' \<in> set (cut_fields n (grep_v pat (fst (ls_d pre suf fs))))"
  then obtain p where p: "p \<in> set fs" "glob_match pre suf p" "\<not> sublist pat p"
    and c: "join CHR ''/'' (take n (split_on CHR ''/'' p)) = pre' @ X @ suf'"
    by (auto simp: cut_fields_def grep_v_def set_fst_ls_d)
  from p(2) obtain Y where Y: "plain_name Y" "p = pre @ Y @ suf"
    by (auto simp: glob_match_iff)
  from cut [OF Y(1)] c Y(2) have "pre' @ Y @ suf' = pre' @ X @ suf'" by simp
  then have "Y = X" by simp
  with p Y show "pre @ X @ suf \<in> set fs \<and> \<not> sublist pat (pre @ X @ suf)" by simp
next
  assume a: "pre @ X @ suf \<in> set fs \<and> \<not> sublist pat (pre @ X @ suf)"
  have "glob_match pre suf (pre @ X @ suf)" using X by (auto simp: glob_match_iff)
  with a have "pre @ X @ suf \<in> set (grep_v pat (fst (ls_d pre suf fs)))"
    by (simp add: grep_v_def set_fst_ls_d)
  then have "join CHR ''/'' (take n (split_on CHR ''/'' (pre @ X @ suf)))
      \<in> set (cut_fields n (grep_v pat (fst (ls_d pre suf fs))))"
    by (simp add: cut_fields_def)
  with cut [OF X] show "pre' @ X @ suf' \<in> set (cut_fields n (grep_v pat (fst (ls_d pre suf fs))))"
    by simp
qed

lemma snd_ls_d_cases:
  "snd (ls_d pre suf fs) = [] \<or>
   snd (ls_d pre suf fs) = [''ls: cannot access '' @ pre @ ''*'' @ suf @ '': No such file or directory'']"
  by (simp add: ls_d_def)

lemma error_line_No_such:
  "sublist ''No such'' (''ls: cannot access '' @ pre @ ''*'' @ suf @ '': No such file or directory'')"
proof -
  have "''ls: cannot access '' @ pre @ ''*'' @ suf @ '': No such file or directory'' =
        (''ls: cannot access '' @ pre @ ''*'' @ suf @ '': '') @ ''No such'' @ '' file or directory''"
    by simp
  then show ?thesis by (simp only: sublist_appendI)
qed

lemma captured_pipe_mem:
  assumes cut: "\<And>Y. plain_name Y \<Longrightarrow> join CHR ''/'' (take n (split_on CHR ''/'' (pre @ Y @ suf))) = (CHR ''/'' # pre') @ Y @ suf'"
    and X: "plain_name X"
  shows "(CHR ''/'' # pre') @ X @ suf' \<in> set (captured_pipe (ls_d pre suf fs) pat n) \<longleftrightarrow>
         pre @ X @ suf \<in> set fs \<and> \<not> sublist pat (pre @ X @ suf)"
proof -
  have "(CHR ''/'' # pre') @ X @ suf' \<notin> set (snd (ls_d pre suf fs))"
    using snd_ls_d_cases [of pre suf fs] by auto
  then show ?thesis
    using cut_grep_mem [OF cut X, where pat = pat and fs = fs]
    by (simp add: captured_pipe_def set_sort_uniq)
qed

lemma captured_pipe_both_mem:
  assumes cut: "\<And>Y. plain_name Y \<Longrightarrow> join CHR ''/'' (take n (split_on CHR ''/'' (pre @ Y @ suf))) = pre' @ Y @ suf'"
    and X: "plain_name X"
  shows "pre' @ X @ suf' \<in> set (captured_pipe_both (ls_d pre suf fs) ''No such'' n) \<longleftrightarrow>
         pre @ X @ suf \<in> set fs \<and> \<not> sublist ''No such'' (pre @ X @ suf)"
proof -
  have "grep_v ''No such'' (fst (ls_d pre suf fs) @ snd (ls_d pre suf fs)) =
        grep_v ''No such'' (fst (ls_d pre suf fs))"
    using snd_ls_d_cases [of pre suf fs] error_line_No_such [of pre suf]
    by (auto simp: grep_v_def)
  then show ?thesis
    using cut_grep_mem [OF cut X, where pat = "''No such''" and fs = fs]
    by (simp add: captured_pipe_both_def set_sort_uniq)
qed

lemma plain_name_no_slash: "plain_name X \<Longrightarrow> CHR ''/'' \<notin> set X"
  by (simp add: plain_name_def)

lemma shared_repos_mem:
  assumes "plain_name X"
  shows "''/project/shared/data/'' @ X \<in> set (shared_repos fs) \<longleftrightarrow>
      (''/project/shared/data/'' @ X @ ''/_mapper'' \<in> set fs \<and>
         \<not> sublist ''README'' (''/project/shared/data/'' @ X @ ''/_mapper'')) \<or>
      (''/project/shared/data/'' @ X @ ''/repositoryCfg.yaml'' \<in> set fs \<and>
         \<not> sublist ''README'' (''/project/shared/data/'' @ X @ ''/repositoryCfg.yaml''))"
proof -
  have c1: "\<And>Y. plain_name Y \<Longrightarrow>
      join CHR ''/'' (take 5 (split_on CHR ''/'' (''/project/shared/data/'' @ Y @ ''/_mapper''))) =
      (CHR ''/'' # ''project/shared/data/'') @ Y @ []"
    using cut_shared [of _ "''_mapper''"] by (simp add: plain_name_no_slash)
  have c2: "\<And>Y. plain_name Y \<Longrightarrow>
      join CHR ''/'' (take 5 (split_on CHR ''/'' (''/project/shared/data/'' @ Y @ ''/repositoryCfg.yaml''))) =
      (CHR ''/'' # ''project/shared/data/'') @ Y @ []"
    using cut_shared [of _ "''repositoryCfg.yaml''"] by (simp add: plain_name_no_slash)
  from captured_pipe_mem [OF c1 assms, where pat = "''README''" and fs = fs]
       captured_pipe_mem [OF c2 assms, where pat = "''README''" and fs = fs]
  show ?thesis
    by (simp add: shared_repos_def np_unique_props shared_repos_with_mappers_def
        shared_repos_with_yaml_files_def)
qed

lemma repos_mem:
  assumes "plain_name X"
  shows "''/datasets/'' @ X @ ''/repo'' \<in> set (repos fs) \<longleftrightarrow>
      (''/datasets/'' @ X @ ''/repo/_mapper'' \<in> set fs \<and>
         \<not> sublist ''No such'' (''/datasets/'' @ X @ ''/repo/_mapper'')) \<or>
      (''/datasets/'' @ X @ ''/repo/repositoryCfg.yaml'' \<in> set fs \<and>
         \<not> sublist ''No such'' (''/datasets/'' @ X @ ''/repo/repositoryCfg.yaml''))"
proof -
  have c1: "\<And>Y. plain_name Y \<Longrightarrow>
      join CHR ''/'' (take 4 (split_on CHR ''/'' (''/datasets/'' @ Y @ ''/repo/_mapper''))) =
      ''/datasets/'' @ Y @ ''/repo''"
    using cut_datasets [of _ "''_mapper''"] by (simp add: plain_name_no_slash)
  have c2: "\<And>Y. plain_name Y \<Longrightarrow>
      join CHR ''/'' (take 4 (split_on CHR ''/'' (''/datasets/'' @ Y @ ''/repo/repositoryCfg.yaml''))) =
      ''/datasets/'' @ Y @ ''/repo''"
    using cut_datasets [of _ "''repositoryCfg.yaml''"] by (simp add: plain_name_no_slash)
  from captured_pipe_both_mem [OF c1 assms, where fs = fs]
       captured_pipe_both_mem [OF c2 assms, where fs = fs]
  show ?thesis
    by (simp add: repos_def np_unique_props repos_with_mappers_def repos_with_yaml_files_def)
qed

text \<open>
  C6, as the cells have it. Both lists are sorted and free of duplicates, and hold what
  the two listings hold. For a directory entry \<open>X\<close> that \<open>*\<close> can stand for,
  \<open>shared_repos\<close> has \<open>/project/shared/data/X\<close> exactly when \<open>X\<close> has \<open>_mapper\<close> or
  \<open>repositoryCfg.yaml\<close> at its top level and the listed path does not contain
  \<open>README\<close>; \<open>repos\<close> has \<open>/datasets/X/repo\<close> exactly when \<open>/datasets/X/repo\<close> has
  one of the two at its top level and the listed path does not contain \<open>No such\<close>:
  the second cell filters on \<open>No such\<close>, not on \<open>README\<close>.
\<close>

theorem repository_discovery:
  "sorted (shared_repos fs) \<and> distinct (shared_repos fs) \<and>
   set (shared_repos fs) = set (shared_repos_with_mappers fs) \<union> set (shared_repos_with_yaml_files fs) \<and>
   sorted (repos fs) \<and> distinct (repos fs) \<and>
   set (repos fs) = set (repos_with_mappers fs) \<union> set (repos_with_yaml_files fs) \<and>
   (plain_name X \<longrightarrow>
      (''/project/shared/data/'' @ X \<in> set (shared_repos fs) \<longleftrightarrow>
         (''/project/shared/data/'' @ X @ ''/_mapper'' \<in> set fs \<and>
            \<not> sublist ''README'' (''/project/shared/data/'' @ X @ ''/_mapper'')) \<or>
         (''/project/shared/data/'' @ X @ ''/repositoryCfg.yaml'' \<in> set fs \<and>
            \<not> sublist ''README'' (''/project/shared/data/'' @ X @ ''/repositoryCfg.yaml'')))) \<and>
   (plain_name X \<longrightarrow>
      (''/datasets/'' @ X @ ''/repo'' \<in> set (repos fs) \<longleftrightarrow>
         (''/datasets/'' @ X @ ''/repo/_mapper'' \<in> set fs \<and>
            \<not> sublist ''No such'' (''/datasets/'' @ X @ ''/repo/_mapper'')) \<or>
         (''/datasets/'' @ X @ ''/repo/repositoryCfg.yaml'' \<in> set fs \<and>
            \<not> sublist ''No such'' (''/datasets/'' @ X @ ''/repo/repositoryCfg.yaml''))))"
proof -
  have a: "sorted (shared_repos fs) \<and> distinct (shared_repos fs) \<and>
     set (shared_repos fs) = set (shared_repos_with_mappers fs) \<union> set (shared_repos_with_yaml_files fs)"
    by (simp add: shared_repos_def np_unique_props)
  have b: "sorted (repos fs) \<and> distinct (repos fs) \<and>
     set (repos fs) = set (repos_with_mappers fs) \<union> set (repos_with_yaml_files fs)"
    by (simp add: repos_def np_unique_props)
  from a b shared_repos_mem [of X fs] repos_mem [of X fs] show ?thesis by blast
qed

theorem repository_discovery_witness:
  "plain_name ''hsc'' \<and>
   ''/datasets/hsc/repo'' \<in> set (repos [''/datasets/hsc/repo/_mapper'', ''/datasets/hsc/repo/repositoryCfg.yaml'']) \<and>
   plain_name ''with-globular'' \<and>
   ''/project/shared/data/with-globular'' \<in> set (shared_repos [''/project/shared/data/with-globular/repositoryCfg.yaml''])"
proof -
  have p: "plain_name ''hsc''" "plain_name ''with-globular''" by (simp_all add: plain_name_def)
  have n: "\<not> sublist ''No such'' (''/datasets/'' @ ''hsc'' @ ''/repo/_mapper'')"
    "\<not> sublist ''README'' (''/project/shared/data/'' @ ''with-globular'' @ ''/repositoryCfg.yaml'')"
    by code_simp+
  from repository_discovery [of "[''/datasets/hsc/repo/_mapper'', ''/datasets/hsc/repo/repositoryCfg.yaml'']" "''hsc''"]
  have "plain_name ''hsc'' \<longrightarrow>
      (''/datasets/'' @ ''hsc'' @ ''/repo'' \<in> set (repos [''/datasets/hsc/repo/_mapper'', ''/datasets/hsc/repo/repositoryCfg.yaml'']) \<longleftrightarrow>
         (''/datasets/'' @ ''hsc'' @ ''/repo/_mapper'' \<in> set [''/datasets/hsc/repo/_mapper'', ''/datasets/hsc/repo/repositoryCfg.yaml''] \<and>
            \<not> sublist ''No such'' (''/datasets/'' @ ''hsc'' @ ''/repo/_mapper'')) \<or>
         (''/datasets/'' @ ''hsc'' @ ''/repo/repositoryCfg.yaml'' \<in> set [''/datasets/hsc/repo/_mapper'', ''/datasets/hsc/repo/repositoryCfg.yaml''] \<and>
            \<not> sublist ''No such'' (''/datasets/'' @ ''hsc'' @ ''/repo/repositoryCfg.yaml'')))"
    by (elim conjE)
  with p(1) n(1)
  have r: "''/datasets/'' @ ''hsc'' @ ''/repo'' \<in> set (repos [''/datasets/hsc/repo/_mapper'', ''/datasets/hsc/repo/repositoryCfg.yaml''])"
    by simp
  from repository_discovery [of "[''/project/shared/data/with-globular/repositoryCfg.yaml'']" "''with-globular''"]
  have "plain_name ''with-globular'' \<longrightarrow>
      (''/project/shared/data/'' @ ''with-globular'' \<in> set (shared_repos [''/project/shared/data/with-globular/repositoryCfg.yaml'']) \<longleftrightarrow>
         (''/project/shared/data/'' @ ''with-globular'' @ ''/_mapper'' \<in> set [''/project/shared/data/with-globular/repositoryCfg.yaml''] \<and>
            \<not> sublist ''README'' (''/project/shared/data/'' @ ''with-globular'' @ ''/_mapper'')) \<or>
         (''/project/shared/data/'' @ ''with-globular'' @ ''/repositoryCfg.yaml'' \<in> set [''/project/shared/data/with-globular/repositoryCfg.yaml''] \<and>
            \<not> sublist ''README'' (''/project/shared/data/'' @ ''with-globular'' @ ''/repositoryCfg.yaml'')))"
    by (elim conjE)
  with p(2) n(2)
  have s: "''/project/shared/data/'' @ ''with-globular'' \<in> set (shared_repos [''/project/shared/data/with-globular/repositoryCfg.yaml''])"
    by simp
  from p r s show ?thesis by simp
qed

text \<open>
  The second cell lists a repository whose path contains \<open>README\<close>.
\<close>

theorem repos_keeps_README_counterexample:
  "sublist ''README'' ''/datasets/README/repo/_mapper'' \<and>
   repos [''/datasets/README/repo/_mapper''] = [''/datasets/README/repo'']"
  by code_simp

subsection \<open>DataInventory: exceptions of the Taster\<close>









end
